theory Spec2Isabelle
  imports Main "HOL-Library.Word"
begin

section \<open>Package config: the configuration of a StooKV client\<close>

subsection \<open>Values, failures and the store of configurations\<close>

text \<open>
  Go's \<open>time.Duration\<close> is a signed 64-bit count of nanoseconds; \<open>sint\<close> reads it.
  \<open>time.Second\<close> is the constant of the standard library.
\<close>

type_synonym Duration = "64 word"

definition Second :: Duration where
  "Second = 1000000000"

text \<open>
  The ways a call does not return: \<open>log.Fatal\<close> and \<open>log.Fatalf\<close> end the process,
  \<open>panic\<close> and the dereference of a nil pointer unwind it.
\<close>

datatype error = ErrDefaultNamespaceAndProfileMustBeDefined | OtherError string

datatype failure =
    log_Fatal string
  | log_Fatalf string error
  | panic string
  | nil_dereference

text \<open>
  \<open>TLS\<close> and \<open>StooConfig\<close> as the structs declare them. The field \<open>tls\<close> is a
  pointer \<open>*TLS\<close>: \<open>None\<close> is nil, \<open>Some t\<close> points to the options \<open>t\<close>.
\<close>

record TLS =
  SkipTlsVerification :: bool
  CaCertPath :: string
  ServerNameOverride :: string

record StooConfig =
  endpoint :: string
  useTls :: bool
  readTimeout :: Duration
  defaultNamespace :: string
  defaultProfile :: string
  tls :: "TLS option"

text \<open>
  Every function of the package works on \<open>*StooConfig\<close>, and the setters write through
  the pointer. The store holds the allocated configurations, an address is an index into
  it, and a pointer is nil (\<open>None\<close>) or an address.
\<close>

type_synonym heap = "StooConfig list"
type_synonym ConfigPtr = "nat option"

definition alloc :: "heap \<Rightarrow> StooConfig \<Rightarrow> heap \<times> ConfigPtr" where
  "alloc h s = (h @ [s], Some (length h))"

definition deref :: "heap \<Rightarrow> ConfigPtr \<Rightarrow> failure + StooConfig" where
  "deref h p =
     (case p of
        None \<Rightarrow> Inl nil_dereference
      | Some a \<Rightarrow> if a < length h then Inr (h ! a) else Inl nil_dereference)"

definition assign :: "heap \<Rightarrow> ConfigPtr \<Rightarrow> (StooConfig \<Rightarrow> StooConfig) \<Rightarrow> failure + heap" where
  "assign h p f =
     (case p of
        None \<Rightarrow> Inl nil_dereference
      | Some a \<Rightarrow> if a < length h then Inr (h[a := f (h ! a)]) else Inl nil_dereference)"

subsection \<open>Constructors\<close>

definition DefaultTimeout :: Duration where
  "DefaultTimeout = 10 * Second"

definition NewDefaultStooConfig :: "heap \<Rightarrow> heap \<times> ConfigPtr" where
  "NewDefaultStooConfig h =
     alloc h \<lparr>endpoint = ''localhost:50051'', useTls = False, readTimeout = 10 * Second,
              defaultNamespace = '''', defaultProfile = '''', tls = None\<rparr>"

text \<open>
  \<open>NewStooConfig\<close> of the documented package: a zero timeout becomes \<open>DefaultTimeout\<close>,
  an empty endpoint ends the process through \<open>log.Fatal\<close>.
\<close>

definition NewStooConfig :: "heap \<Rightarrow> string \<Rightarrow> Duration \<Rightarrow> failure + heap \<times> ConfigPtr" where
  "NewStooConfig h endpoint' timeout =
     (let timeout = (if timeout = 0 then DefaultTimeout else timeout) in
      if endpoint' \<noteq> ''''
      then Inr (alloc h \<lparr>endpoint = endpoint', useTls = False, readTimeout = timeout,
                         defaultNamespace = '''', defaultProfile = '''', tls = None\<rparr>)
      else Inl (log_Fatal ''endpoint must be defined''))"

text \<open>
  \<open>NewStooConfig\<close> of the earlier, undocumented copy of the package: it panics unless
  both arguments are given.
\<close>

definition NewStooConfig_strict :: "heap \<Rightarrow> string \<Rightarrow> Duration \<Rightarrow> failure + heap \<times> ConfigPtr" where
  "NewStooConfig_strict h endpoint' timeout =
     (if endpoint' \<noteq> '''' \<and> timeout \<noteq> 0
      then Inr (alloc h \<lparr>endpoint = endpoint', useTls = False, readTimeout = timeout,
                         defaultNamespace = '''', defaultProfile = '''', tls = None\<rparr>)
      else Inl (panic ''endpoint and timeout must be provided''))"

subsection \<open>Setters\<close>

definition WithUseTls :: "heap \<Rightarrow> ConfigPtr \<Rightarrow> bool \<Rightarrow> failure + heap \<times> ConfigPtr" where
  "WithUseTls h s useTls' =
     (case assign h s (\<lambda>c. c\<lparr>useTls := useTls'\<rparr>) of
        Inl f \<Rightarrow> Inl f
      | Inr h' \<Rightarrow> Inr (h', s))"

definition WithDefaultNamespace :: "heap \<Rightarrow> ConfigPtr \<Rightarrow> string \<Rightarrow> failure + heap \<times> ConfigPtr" where
  "WithDefaultNamespace h s defaultNamespace' =
     (case assign h s (\<lambda>c. c\<lparr>defaultNamespace := defaultNamespace'\<rparr>) of
        Inl f \<Rightarrow> Inl f
      | Inr h' \<Rightarrow> Inr (h', s))"

definition WithDefaultProfile :: "heap \<Rightarrow> ConfigPtr \<Rightarrow> string \<Rightarrow> failure + heap \<times> ConfigPtr" where
  "WithDefaultProfile h s defaultProfile' =
     (case assign h s (\<lambda>c. c\<lparr>defaultProfile := defaultProfile'\<rparr>) of
        Inl f \<Rightarrow> Inl f
      | Inr h' \<Rightarrow> Inr (h', s))"

text \<open>\<open>WithTls\<close> touches the receiver only when the argument is not nil.\<close>

definition WithTls :: "heap \<Rightarrow> ConfigPtr \<Rightarrow> TLS option \<Rightarrow> failure + heap \<times> ConfigPtr" where
  "WithTls h s tls' =
     (if tls' \<noteq> None
      then (case assign h s (\<lambda>c. c\<lparr>tls := tls'\<rparr>) of
              Inl f \<Rightarrow> Inl f
            | Inr h' \<Rightarrow> Inr (h', s))
      else Inr (h, s))"

subsection \<open>Accessors\<close>

definition GetUseTls :: "heap \<Rightarrow> ConfigPtr \<Rightarrow> failure + bool" where
  "GetUseTls h s = (case deref h s of Inl f \<Rightarrow> Inl f | Inr c \<Rightarrow> Inr (useTls c))"

definition GetDefaultNamespace :: "heap \<Rightarrow> ConfigPtr \<Rightarrow> failure + string" where
  "GetDefaultNamespace h s =
     (case deref h s of Inl f \<Rightarrow> Inl f | Inr c \<Rightarrow> Inr (defaultNamespace c))"

definition GetDefaultProfile :: "heap \<Rightarrow> ConfigPtr \<Rightarrow> failure + string" where
  "GetDefaultProfile h s =
     (case deref h s of Inl f \<Rightarrow> Inl f | Inr c \<Rightarrow> Inr (defaultProfile c))"

definition GetEndpoint :: "heap \<Rightarrow> ConfigPtr \<Rightarrow> failure + string" where
  "GetEndpoint h s = (case deref h s of Inl f \<Rightarrow> Inl f | Inr c \<Rightarrow> Inr (endpoint c))"

definition GetReadTimeout :: "heap \<Rightarrow> ConfigPtr \<Rightarrow> failure + Duration" where
  "GetReadTimeout h s = (case deref h s of Inl f \<Rightarrow> Inl f | Inr c \<Rightarrow> Inr (readTimeout c))"

definition GetTls :: "heap \<Rightarrow> ConfigPtr \<Rightarrow> failure + TLS option" where
  "GetTls h s = (case deref h s of Inl f \<Rightarrow> Inl f | Inr c \<Rightarrow> Inr (tls c))"

section \<open>Package stogo: the client\<close>

subsection \<open>The remote service\<close>

text \<open>
  A call runs under \<open>context.WithTimeout(context.Background(), d)\<close>; the context is
  represented by its bound \<open>d\<close>. The request messages carry namespace, profile, key and,
  for the two writes, the value, in the order of the struct literals of the client.
\<close>

datatype Context = WithTimeout Duration

datatype GetRequest = GetRequest string string string
datatype SetKeyRequest = SetKeyRequest string string string string
datatype DeleteKeyRequest = DeleteKeyRequest string string string
datatype GetByNamespaceAndProfileRequest = GetByNamespaceAndProfileRequest string string

text \<open>
  The generated stub \<open>proto.KVServiceClient\<close> is a parameter of the model: five remote
  methods that take the context and the request, act on the state \<open>'s\<close> of the service
  and return a response pointer with an error (\<open>None\<close> is the nil error), and the
  getters \<open>GetData\<close> of the response messages. The response pointers, nil among them,
  are the values of \<open>'r\<close> for the four point operations and of \<open>'m\<close> for the bulk
  read. A Go map is nil (\<open>None\<close>) or a finite map.
\<close>

record ('s, 'r, 'm) KVServiceClient =
  GetService :: "Context \<Rightarrow> GetRequest \<Rightarrow> 's \<Rightarrow> ('r \<times> error option) \<times> 's"
  SetKeyService :: "Context \<Rightarrow> SetKeyRequest \<Rightarrow> 's \<Rightarrow> ('r \<times> error option) \<times> 's"
  SetSecretKeyService :: "Context \<Rightarrow> SetKeyRequest \<Rightarrow> 's \<Rightarrow> ('r \<times> error option) \<times> 's"
  DeleteKeyService :: "Context \<Rightarrow> DeleteKeyRequest \<Rightarrow> 's \<Rightarrow> ('r \<times> error option) \<times> 's"
  GetServiceByNamespaceAndProfile ::
    "Context \<Rightarrow> GetByNamespaceAndProfileRequest \<Rightarrow> 's \<Rightarrow> ('m \<times> error option) \<times> 's"
  GetData :: "'r \<Rightarrow> string"
  GetDataMap :: "'m \<Rightarrow> (string \<rightharpoonup> string) option"

text \<open>
  The world outside the client: the state of the remote service and the trace of the
  remote calls issued so far, one entry for each invocation of a stub method.
\<close>

datatype rpc =
    GetServiceCall Context GetRequest
  | SetKeyServiceCall Context SetKeyRequest
  | SetSecretKeyServiceCall Context SetKeyRequest
  | DeleteKeyServiceCall Context DeleteKeyRequest
  | GetServiceByNamespaceAndProfileCall Context GetByNamespaceAndProfileRequest

record 's world =
  remote :: 's
  calls :: "rpc list"

subsection \<open>The transport\<close>

text \<open>
  The three credentials \<open>NewStoreClient\<close> can ask for: \<open>insecure.NewCredentials()\<close>,
  \<open>credentials.NewTLS\<close> of a \<open>tls.Config\<close>, and what \<open>credentials.NewClientTLSFromFile\<close>
  made of a certificate file. Reading the file and dialling belong to gRPC and the file
  system, and are parameters, as is the constructor of the stub.
\<close>

record tls_Config =
  InsecureSkipVerify :: bool

datatype 'c TransportCredentials =
    insecure_NewCredentials
  | credentials_NewTLS tls_Config
  | ClientTLSFromFile 'c

datatype 'c DialOption = WithTransportCredentials "'c TransportCredentials"

record ('c, 'conn, 'k) grpc =
  NewClientTLSFromFile :: "string \<Rightarrow> string \<Rightarrow> error + 'c"
  Dial :: "string \<Rightarrow> 'c DialOption list \<Rightarrow> error + 'conn"
  NewKVServiceClient :: "'conn \<Rightarrow> 'k"

subsection \<open>StooClient and its constructor\<close>

text \<open>The field \<open>client\<close> is an interface value: \<open>None\<close> is the nil interface.\<close>

record ('s, 'r, 'm) StooClient =
  Config :: ConfigPtr
  client :: "('s, 'r, 'm) KVServiceClient option"

definition NewStoreClient ::
  "('c, 'conn, ('s, 'r, 'm) KVServiceClient) grpc \<Rightarrow> heap \<Rightarrow> ConfigPtr
     \<Rightarrow> failure + ('s, 'r, 'm) StooClient" where
  "NewStoreClient g h cfg =
     (case GetUseTls h cfg of
        Inl f \<Rightarrow> Inl f
      | Inr u \<Rightarrow>
          (case (if u
                 then (case GetTls h cfg of
                         Inl f \<Rightarrow> Inl f
                       | Inr None \<Rightarrow> Inl nil_dereference
                       | Inr (Some t) \<Rightarrow>
                           if \<not> SkipTlsVerification t
                           then (case NewClientTLSFromFile g (CaCertPath t) (ServerNameOverride t) of
                                   Inl err \<Rightarrow> Inl (log_Fatalf ''Failed to read CA cert: %v'' err)
                                 | Inr creds \<Rightarrow>
                                     Inr ([] @ [WithTransportCredentials (ClientTLSFromFile creds)]))
                           else Inr ([] @ [WithTransportCredentials
                                             (credentials_NewTLS \<lparr>InsecureSkipVerify = True\<rparr>)]))
                 else Inr ([] @ [WithTransportCredentials insecure_NewCredentials])) of
             Inl f \<Rightarrow> Inl f
           | Inr options \<Rightarrow>
               (case GetEndpoint h cfg of
                  Inl f \<Rightarrow> Inl f
                | Inr ep \<Rightarrow>
                    (case Dial g ep options of
                       Inl err \<Rightarrow>
                         Inl (log_Fatalf ''Failed to establish connection to stooKV: %v'' err)
                     | Inr conn \<Rightarrow>
                         Inr \<lparr>Config = cfg, client = Some (NewKVServiceClient g conn)\<rparr>))))"

subsection \<open>Scoped operations\<close>

text \<open>
  Each operation reads the timeout through the configuration pointer, makes the context,
  calls one method of the stub and returns \<open>res.GetData()\<close> with the error.
\<close>

definition Get ::
  "heap \<Rightarrow> ('s, 'r, 'm) StooClient \<Rightarrow> string \<Rightarrow> string \<Rightarrow> string \<Rightarrow> 's world
     \<Rightarrow> failure + (string \<times> error option) \<times> 's world" where
  "Get h c namespace profile key w =
     (case GetReadTimeout h (Config c) of
        Inl f \<Rightarrow> Inl f
      | Inr t \<Rightarrow>
          (case client c of
             None \<Rightarrow> Inl nil_dereference
           | Some k \<Rightarrow>
               (let ctx = WithTimeout t;
                    req = GetRequest namespace profile key;
                    ((res, err), s) = GetService k ctx req (remote w)
                in Inr ((GetData k res, err),
                        \<lparr>remote = s, calls = calls w @ [GetServiceCall ctx req]\<rparr>))))"

definition Set ::
  "heap \<Rightarrow> ('s, 'r, 'm) StooClient \<Rightarrow> string \<Rightarrow> string \<Rightarrow> string \<Rightarrow> string \<Rightarrow> 's world
     \<Rightarrow> failure + (string \<times> error option) \<times> 's world" where
  "Set h c namespace profile key val w =
     (case GetReadTimeout h (Config c) of
        Inl f \<Rightarrow> Inl f
      | Inr t \<Rightarrow>
          (case client c of
             None \<Rightarrow> Inl nil_dereference
           | Some k \<Rightarrow>
               (let ctx = WithTimeout t;
                    req = SetKeyRequest namespace profile key val;
                    ((res, err), s) = SetKeyService k ctx req (remote w)
                in Inr ((GetData k res, err),
                        \<lparr>remote = s, calls = calls w @ [SetKeyServiceCall ctx req]\<rparr>))))"

definition SetSecret ::
  "heap \<Rightarrow> ('s, 'r, 'm) StooClient \<Rightarrow> string \<Rightarrow> string \<Rightarrow> string \<Rightarrow> string \<Rightarrow> 's world
     \<Rightarrow> failure + (string \<times> error option) \<times> 's world" where
  "SetSecret h c namespace profile key val w =
     (case GetReadTimeout h (Config c) of
        Inl f \<Rightarrow> Inl f
      | Inr t \<Rightarrow>
          (case client c of
             None \<Rightarrow> Inl nil_dereference
           | Some k \<Rightarrow>
               (let ctx = WithTimeout t;
                    req = SetKeyRequest namespace profile key val;
                    ((res, err), s) = SetSecretKeyService k ctx req (remote w)
                in Inr ((GetData k res, err),
                        \<lparr>remote = s, calls = calls w @ [SetSecretKeyServiceCall ctx req]\<rparr>))))"

definition Delete ::
  "heap \<Rightarrow> ('s, 'r, 'm) StooClient \<Rightarrow> string \<Rightarrow> string \<Rightarrow> string \<Rightarrow> 's world
     \<Rightarrow> failure + (string \<times> error option) \<times> 's world" where
  "Delete h c namespace profile key w =
     (case GetReadTimeout h (Config c) of
        Inl f \<Rightarrow> Inl f
      | Inr t \<Rightarrow>
          (case client c of
             None \<Rightarrow> Inl nil_dereference
           | Some k \<Rightarrow>
               (let ctx = WithTimeout t;
                    req = DeleteKeyRequest namespace profile key;
                    ((res, err), s) = DeleteKeyService k ctx req (remote w)
                in Inr ((GetData k res, err),
                        \<lparr>remote = s, calls = calls w @ [DeleteKeyServiceCall ctx req]\<rparr>))))"

definition GetAllByNamespaceAndProfile ::
  "heap \<Rightarrow> ('s, 'r, 'm) StooClient \<Rightarrow> string \<Rightarrow> string \<Rightarrow> 's world
     \<Rightarrow> failure + ((string \<rightharpoonup> string) option \<times> error option) \<times> 's world" where
  "GetAllByNamespaceAndProfile h c namespace profile w =
     (case GetReadTimeout h (Config c) of
        Inl f \<Rightarrow> Inl f
      | Inr t \<Rightarrow>
          (case client c of
             None \<Rightarrow> Inl nil_dereference
           | Some k \<Rightarrow>
               (let ctx = WithTimeout t;
                    req = GetByNamespaceAndProfileRequest namespace profile;
                    ((res, err), s) = GetServiceByNamespaceAndProfile k ctx req (remote w)
                in Inr ((GetDataMap k res, err),
                        \<lparr>remote = s,
                         calls = calls w @ [GetServiceByNamespaceAndProfileCall ctx req]\<rparr>))))"

subsection \<open>Default-scope operations\<close>

definition validateDefaultNamespaceAndProfile :: "string \<Rightarrow> string \<Rightarrow> error option" where
  "validateDefaultNamespaceAndProfile defaultNamespace' defaultProfile' =
     (if defaultNamespace' \<noteq> '''' \<and> defaultProfile' \<noteq> '''' then None
      else Some ErrDefaultNamespaceAndProfileMustBeDefined)"

definition GetDefault ::
  "heap \<Rightarrow> ('s, 'r, 'm) StooClient \<Rightarrow> string \<Rightarrow> 's world
     \<Rightarrow> failure + (string \<times> error option) \<times> 's world" where
  "GetDefault h c key w =
     (case GetDefaultNamespace h (Config c) of
        Inl f \<Rightarrow> Inl f
      | Inr defaultNamespace' \<Rightarrow>
          (case GetDefaultProfile h (Config c) of
             Inl f \<Rightarrow> Inl f
           | Inr defaultProfile' \<Rightarrow>
               (case validateDefaultNamespaceAndProfile defaultNamespace' defaultProfile' of
                  Some err \<Rightarrow> Inr (('''', Some err), w)
                | None \<Rightarrow> Get h c defaultNamespace' defaultProfile' key w)))"

definition SetDefault ::
  "heap \<Rightarrow> ('s, 'r, 'm) StooClient \<Rightarrow> string \<Rightarrow> string \<Rightarrow> 's world
     \<Rightarrow> failure + (string \<times> error option) \<times> 's world" where
  "SetDefault h c key val w =
     (case GetDefaultNamespace h (Config c) of
        Inl f \<Rightarrow> Inl f
      | Inr defaultNamespace' \<Rightarrow>
          (case GetDefaultProfile h (Config c) of
             Inl f \<Rightarrow> Inl f
           | Inr defaultProfile' \<Rightarrow>
               (case validateDefaultNamespaceAndProfile defaultNamespace' defaultProfile' of
                  Some err \<Rightarrow> Inr (('''', Some err), w)
                | None \<Rightarrow> Set h c defaultNamespace' defaultProfile' key val w)))"

definition SetSecretDefault ::
  "heap \<Rightarrow> ('s, 'r, 'm) StooClient \<Rightarrow> string \<Rightarrow> string \<Rightarrow> 's world
     \<Rightarrow> failure + (string \<times> error option) \<times> 's world" where
  "SetSecretDefault h c key val w =
     (case GetDefaultNamespace h (Config c) of
        Inl f \<Rightarrow> Inl f
      | Inr defaultNamespace' \<Rightarrow>
          (case GetDefaultProfile h (Config c) of
             Inl f \<Rightarrow> Inl f
           | Inr defaultProfile' \<Rightarrow>
               (case validateDefaultNamespaceAndProfile defaultNamespace' defaultProfile' of
                  Some err \<Rightarrow> Inr (('''', Some err), w)
                | None \<Rightarrow> SetSecret h c defaultNamespace' defaultProfile' key val w)))"

definition DeleteDefault ::
  "heap \<Rightarrow> ('s, 'r, 'm) StooClient \<Rightarrow> string \<Rightarrow> 's world
     \<Rightarrow> failure + (string \<times> error option) \<times> 's world" where
  "DeleteDefault h c key w =
     (case GetDefaultNamespace h (Config c) of
        Inl f \<Rightarrow> Inl f
      | Inr defaultNamespace' \<Rightarrow>
          (case GetDefaultProfile h (Config c) of
             Inl f \<Rightarrow> Inl f
           | Inr defaultProfile' \<Rightarrow>
               (case validateDefaultNamespaceAndProfile defaultNamespace' defaultProfile' of
                  Some err \<Rightarrow> Inr (('''', Some err), w)
                | None \<Rightarrow> Delete h c defaultNamespace' defaultProfile' key w)))"

definition GetAllByDefaultNamespaceAndProfile ::
  "heap \<Rightarrow> ('s, 'r, 'm) StooClient \<Rightarrow> 's world
     \<Rightarrow> failure + ((string \<rightharpoonup> string) option \<times> error option) \<times> 's world" where
  "GetAllByDefaultNamespaceAndProfile h c w =
     (case GetDefaultNamespace h (Config c) of
        Inl f \<Rightarrow> Inl f
      | Inr defaultNamespace' \<Rightarrow>
          (case GetDefaultProfile h (Config c) of
             Inl f \<Rightarrow> Inl f
           | Inr defaultProfile' \<Rightarrow>
               (case validateDefaultNamespaceAndProfile defaultNamespace' defaultProfile' of
                  Some err \<Rightarrow> Inr ((None, Some err), w)
                | None \<Rightarrow> GetAllByNamespaceAndProfile h c defaultNamespace' defaultProfile' w)))"

section \<open>Test doubles\<close>

text \<open>
  A double of the remote service, to run the operations on concrete inputs: the state is
  the list of stored entries, newest first; a response is nil or its data.
\<close>

type_synonym store = "((string \<times> string \<times> string) \<times> string) list"

definition fakeKV :: "(store, string option, (string \<times> string) list option) KVServiceClient" where
  "fakeKV =
     \<lparr>GetService = (\<lambda>ctx req s. case req of GetRequest n p k \<Rightarrow>
          (case map_of s (n, p, k) of
             None \<Rightarrow> ((None, Some (OtherError ''key not found'')), s)
           | Some v \<Rightarrow> ((Some v, None), s))),
      SetKeyService = (\<lambda>ctx req s. case req of SetKeyRequest n p k v \<Rightarrow>
          ((Some ''OK'', None), ((n, p, k), v) # s)),
      SetSecretKeyService = (\<lambda>ctx req s. case req of SetKeyRequest n p k v \<Rightarrow>
          ((Some ''OK'', None), ((n, p, k), v) # s)),
      DeleteKeyService = (\<lambda>ctx req s. case req of DeleteKeyRequest n p k \<Rightarrow>
          ((Some ''OK'', None), filter (\<lambda>e. fst e \<noteq> (n, p, k)) s)),
      GetServiceByNamespaceAndProfile = (\<lambda>ctx req s.
          case req of GetByNamespaceAndProfileRequest n p \<Rightarrow>
            ((Some (map (\<lambda>((n', p', k), v). (k, v))
                      (filter (\<lambda>((n', p', k), v). n' = n \<and> p' = p) s)), None), s)),
      GetData = (\<lambda>r. case r of None \<Rightarrow> '''' | Some d \<Rightarrow> d),
      GetDataMap = map_option map_of\<rparr>"

text \<open>
  A double of gRPC and the file system: one certificate file exists, dialling succeeds
  and the connection remembers the target and the options it was dialled with.
\<close>

definition fakeGrpc ::
  "(string \<times> string, string \<times> (string \<times> string) DialOption list,
    (store, string option, (string \<times> string) list option) KVServiceClient) grpc" where
  "fakeGrpc =
     \<lparr>NewClientTLSFromFile = (\<lambda>certFile serverNameOverride.
          if certFile = ''/stookv/ca_cert.pem'' then Inr (certFile, serverNameOverride)
          else Inl (OtherError ''open: no such file or directory'')),
      Dial = (\<lambda>target opts. Inr (target, opts)),
      NewKVServiceClient = (\<lambda>conn. fakeKV)\<rparr>"

text \<open>The configuration of the usage example, with both defaults set.\<close>

definition appConfig :: StooConfig where
  "appConfig =
     \<lparr>endpoint = ''localhost:50051'', useTls = False, readTimeout = 20 * Second,
      defaultNamespace = ''my-app'', defaultProfile = ''prod'', tls = None\<rparr>"

text \<open>
  What \<open>NewStoreClient\<close> does once the credentials are chosen: dial the target with
  them and bind the stub, or end the process when dialling fails.
\<close>

abbreviation connect ::
  "('c, 'conn, ('s, 'r, 'm) KVServiceClient) grpc \<Rightarrow> ConfigPtr \<Rightarrow> string
     \<Rightarrow> 'c TransportCredentials \<Rightarrow> failure + ('s, 'r, 'm) StooClient" where
  "connect g cfg target creds \<equiv>
     (case Dial g target [WithTransportCredentials creds] of
        Inl err \<Rightarrow> Inl (log_Fatalf ''Failed to establish connection to stooKV: %v'' err)
      | Inr conn \<Rightarrow> Inr \<lparr>Config = cfg, client = Some (NewKVServiceClient g conn)\<rparr>)"

section \<open>Properties of the configuration\<close>

lemmas accessors =
  GetUseTls_def GetEndpoint_def GetReadTimeout_def GetDefaultNamespace_def
  GetDefaultProfile_def GetTls_def

lemma sint_pos: "0 \<le> sint (t :: Duration) \<Longrightarrow> t \<noteq> 0 \<Longrightarrow> 0 < sint t"
  by (metis order_le_less signed_eq_0_iff)

text \<open>
  C5. For every non-empty endpoint and every timeout greater than zero, \<open>NewStooConfig\<close>
  succeeds, and on the configuration it returns \<open>GetEndpoint\<close> gives the endpoint
  supplied and \<open>GetReadTimeout\<close> the timeout supplied; with the timeout zero,
  \<open>GetReadTimeout\<close> gives the default, which is ten seconds.
\<close>

theorem NewStooConfig_accessors:
  assumes "endpoint' \<noteq> ''''"
  shows "(\<exists>h' p. NewStooConfig h endpoint' timeout = Inr (h', p)
           \<and> GetEndpoint h' p = Inr endpoint'
           \<and> (0 < sint timeout \<longrightarrow> GetReadTimeout h' p = Inr timeout)
           \<and> (timeout = 0 \<longrightarrow> GetReadTimeout h' p = Inr DefaultTimeout))
         \<and> DefaultTimeout = 10 * Second"
  using assms
  by (auto simp: NewStooConfig_def GetEndpoint_def GetReadTimeout_def deref_def alloc_def
      DefaultTimeout_def)

theorem NewStooConfig_accessors_witness:
  "''localhost:50051'' \<noteq> '''' \<and> 0 < sint (20 * Second)
   \<and> (\<exists>h' p. NewStooConfig [] ''localhost:50051'' (20 * Second) = Inr (h', p)
         \<and> GetEndpoint h' p = Inr ''localhost:50051''
         \<and> GetReadTimeout h' p = Inr (20 * Second))
   \<and> (\<exists>h' p. NewStooConfig [] ''localhost:50051'' 0 = Inr (h', p)
         \<and> GetEndpoint h' p = Inr ''localhost:50051''
         \<and> GetReadTimeout h' p = Inr (10 * Second))"
  using NewStooConfig_accessors [of "''localhost:50051''" "[]" "20 * Second"]
    NewStooConfig_accessors [of "''localhost:50051''" "[]" 0]
  by (simp add: Second_def DefaultTimeout_def)

text \<open>
  C3. The two copies of \<open>NewStooConfig\<close> differ as described. The documented one, given
  a non-empty endpoint and a zero timeout, stores \<open>DefaultTimeout\<close>; it fails exactly
  when the endpoint is empty, and then through \<open>log.Fatal\<close>. The earlier one panics
  whenever the endpoint is empty or the timeout is zero; given both, it stores the
  timeout supplied, so it never puts a default in its place.
\<close>

theorem NewStooConfig_variants:
  "(endpoint' \<noteq> '''' \<longrightarrow>
       (\<exists>h' p. NewStooConfig h endpoint' 0 = Inr (h', p)
          \<and> GetReadTimeout h' p = Inr DefaultTimeout))
   \<and> ((\<exists>f. NewStooConfig h endpoint' timeout = Inl f) \<longleftrightarrow> endpoint' = '''')
   \<and> (endpoint' = '''' \<longrightarrow>
         NewStooConfig h endpoint' timeout = Inl (log_Fatal ''endpoint must be defined''))
   \<and> (endpoint' = '''' \<or> timeout = 0 \<longrightarrow>
         NewStooConfig_strict h endpoint' timeout
           = Inl (panic ''endpoint and timeout must be provided''))
   \<and> (endpoint' \<noteq> '''' \<and> timeout \<noteq> 0 \<longrightarrow>
         (\<exists>h' p. NewStooConfig_strict h endpoint' timeout = Inr (h', p)
            \<and> GetEndpoint h' p = Inr endpoint'
            \<and> GetReadTimeout h' p = Inr timeout))"
  by (auto simp: NewStooConfig_def NewStooConfig_strict_def GetEndpoint_def GetReadTimeout_def
      deref_def alloc_def Let_def)

theorem NewStooConfig_variants_witness:
  "(\<exists>h' p. NewStooConfig [] ''localhost:50051'' 0 = Inr (h', p)
        \<and> GetReadTimeout h' p = Inr DefaultTimeout)
   \<and> NewStooConfig_strict [] ''localhost:50051'' 0
        = Inl (panic ''endpoint and timeout must be provided'')
   \<and> NewStooConfig [] '''' (20 * Second) = Inl (log_Fatal ''endpoint must be defined'')
   \<and> NewStooConfig_strict [] '''' (20 * Second)
        = Inl (panic ''endpoint and timeout must be provided'')
   \<and> (\<exists>h' p. NewStooConfig_strict [] ''localhost:50051'' (20 * Second) = Inr (h', p)
        \<and> GetEndpoint h' p = Inr ''localhost:50051''
        \<and> GetReadTimeout h' p = Inr (20 * Second))"
  using NewStooConfig_variants [of "''localhost:50051''" "[]" 0]
    NewStooConfig_variants [of "''''" "[]" "20 * Second"]
    NewStooConfig_variants [of "''localhost:50051''" "[]" "20 * Second"]
  by (simp add: Second_def)

text \<open>
  C4, as stated, fails: \<open>NewStooConfig\<close> replaces only a zero timeout, so a negative
  duration is stored as it is and \<open>GetReadTimeout\<close> returns it. Here the timeout is
  minus one nanosecond.
\<close>

theorem NewStooConfig_negative_timeout_counterexample:
  "NewStooConfig [] ''localhost:50051'' (- 1)
     = Inr ([\<lparr>endpoint = ''localhost:50051'', useTls = False, readTimeout = - 1,
               defaultNamespace = '''', defaultProfile = '''', tls = None\<rparr>], Some 0)
   \<and> GetReadTimeout
         [\<lparr>endpoint = ''localhost:50051'', useTls = False, readTimeout = - 1,
           defaultNamespace = '''', defaultProfile = '''', tls = None\<rparr>] (Some 0) = Inr (- 1)
   \<and> sint (- 1 :: Duration) \<le> 0"
  by (simp add: NewStooConfig_def alloc_def GetReadTimeout_def deref_def)

text \<open>
  C4, amended. On every configuration a constructor returns, the stored timeout is not
  zero, and it is strictly positive whenever the timeout supplied is not negative:
  \<open>NewDefaultStooConfig\<close> stores ten seconds, \<open>NewStooConfig\<close> stores the default for
  a zero timeout and the timeout supplied otherwise, and the earlier \<open>NewStooConfig\<close>
  stores the timeout supplied. A negative timeout is stored unchanged.
\<close>

theorem readTimeout_after_construction:
  "(\<exists>h' p. NewDefaultStooConfig h = (h', p) \<and> GetReadTimeout h' p = Inr (10 * Second))
   \<and> 0 < sint (10 * Second)
   \<and> 0 < sint DefaultTimeout
   \<and> (NewStooConfig h endpoint' timeout = Inr (h', p) \<longrightarrow>
         (\<exists>r. GetReadTimeout h' p = Inr r \<and> r \<noteq> 0
            \<and> (timeout = 0 \<longrightarrow> r = DefaultTimeout)
            \<and> (timeout \<noteq> 0 \<longrightarrow> r = timeout)
            \<and> (0 \<le> sint timeout \<longrightarrow> 0 < sint r)))
   \<and> (NewStooConfig_strict h endpoint' timeout = Inr (h', p) \<longrightarrow>
         (\<exists>r. GetReadTimeout h' p = Inr r \<and> r \<noteq> 0 \<and> r = timeout
            \<and> (0 \<le> sint timeout \<longrightarrow> 0 < sint r)))"
  by (auto simp: NewDefaultStooConfig_def NewStooConfig_def NewStooConfig_strict_def
      GetReadTimeout_def deref_def alloc_def Let_def DefaultTimeout_def Second_def sint_pos
      split: if_splits)

theorem readTimeout_after_construction_witness:
  "NewStooConfig [] ''localhost:50051'' (20 * Second)
     = Inr ([\<lparr>endpoint = ''localhost:50051'', useTls = False, readTimeout = 20 * Second,
               defaultNamespace = '''', defaultProfile = '''', tls = None\<rparr>], Some 0)
   \<and> NewStooConfig_strict [] ''localhost:50051'' (20 * Second)
     = Inr ([\<lparr>endpoint = ''localhost:50051'', useTls = False, readTimeout = 20 * Second,
               defaultNamespace = '''', defaultProfile = '''', tls = None\<rparr>], Some 0)
   \<and> 0 \<le> sint (20 * Second)
   \<and> (\<exists>r. GetReadTimeout
               [\<lparr>endpoint = ''localhost:50051'', useTls = False, readTimeout = 20 * Second,
                 defaultNamespace = '''', defaultProfile = '''', tls = None\<rparr>] (Some 0) = Inr r
          \<and> r = 20 * Second \<and> 0 < sint r)
   \<and> NewStooConfig [] ''localhost:50051'' 0
     = Inr ([\<lparr>endpoint = ''localhost:50051'', useTls = False, readTimeout = DefaultTimeout,
               defaultNamespace = '''', defaultProfile = '''', tls = None\<rparr>], Some 0)
   \<and> (\<exists>r. GetReadTimeout
               [\<lparr>endpoint = ''localhost:50051'', useTls = False, readTimeout = DefaultTimeout,
                 defaultNamespace = '''', defaultProfile = '''', tls = None\<rparr>] (Some 0) = Inr r
          \<and> r = DefaultTimeout \<and> 0 < sint r)"
  using readTimeout_after_construction [of "[]" "''localhost:50051''" "20 * Second"
      "[\<lparr>endpoint = ''localhost:50051'', useTls = False, readTimeout = 20 * Second,
         defaultNamespace = '''', defaultProfile = '''', tls = None\<rparr>]" "Some 0"]
    readTimeout_after_construction [of "[]" "''localhost:50051''" 0
      "[\<lparr>endpoint = ''localhost:50051'', useTls = False, readTimeout = DefaultTimeout,
         defaultNamespace = '''', defaultProfile = '''', tls = None\<rparr>]" "Some 0"]
  by (simp add: NewStooConfig_def NewStooConfig_strict_def alloc_def Second_def
      DefaultTimeout_def)

subsection \<open>The setters\<close>

lemma WithUseTls_frame:
  assumes "a < length h"
  shows "\<exists>h'. WithUseTls h (Some a) v = Inr (h', Some a)
     \<and> length h' = length h
     \<and> GetUseTls h' (Some a) = Inr v
     \<and> (\<forall>q. q \<noteq> Some a \<longrightarrow> deref h' q = deref h q)
     \<and> GetEndpoint h' = GetEndpoint h
     \<and> GetReadTimeout h' = GetReadTimeout h
     \<and> GetDefaultNamespace h' = GetDefaultNamespace h
     \<and> GetDefaultProfile h' = GetDefaultProfile h
     \<and> GetTls h' = GetTls h"
  using assms
  by (auto simp: WithUseTls_def assign_def accessors deref_def nth_list_update fun_eq_iff
      split: option.splits)

lemma WithDefaultNamespace_frame:
  assumes "a < length h"
  shows "\<exists>h'. WithDefaultNamespace h (Some a) v = Inr (h', Some a)
     \<and> length h' = length h
     \<and> GetDefaultNamespace h' (Some a) = Inr v
     \<and> (\<forall>q. q \<noteq> Some a \<longrightarrow> deref h' q = deref h q)
     \<and> GetEndpoint h' = GetEndpoint h
     \<and> GetUseTls h' = GetUseTls h
     \<and> GetReadTimeout h' = GetReadTimeout h
     \<and> GetDefaultProfile h' = GetDefaultProfile h
     \<and> GetTls h' = GetTls h"
  using assms
  by (auto simp: WithDefaultNamespace_def assign_def accessors deref_def nth_list_update
      fun_eq_iff split: option.splits)

lemma WithDefaultProfile_frame:
  assumes "a < length h"
  shows "\<exists>h'. WithDefaultProfile h (Some a) v = Inr (h', Some a)
     \<and> length h' = length h
     \<and> GetDefaultProfile h' (Some a) = Inr v
     \<and> (\<forall>q. q \<noteq> Some a \<longrightarrow> deref h' q = deref h q)
     \<and> GetEndpoint h' = GetEndpoint h
     \<and> GetUseTls h' = GetUseTls h
     \<and> GetReadTimeout h' = GetReadTimeout h
     \<and> GetDefaultNamespace h' = GetDefaultNamespace h
     \<and> GetTls h' = GetTls h"
  using assms
  by (auto simp: WithDefaultProfile_def assign_def accessors deref_def nth_list_update
      fun_eq_iff split: option.splits)

lemma WithTls_frame:
  assumes "a < length h"
  shows "\<exists>h'. WithTls h (Some a) (Some t) = Inr (h', Some a)
     \<and> length h' = length h
     \<and> GetTls h' (Some a) = Inr (Some t)
     \<and> (\<forall>q. q \<noteq> Some a \<longrightarrow> deref h' q = deref h q)
     \<and> GetEndpoint h' = GetEndpoint h
     \<and> GetUseTls h' = GetUseTls h
     \<and> GetReadTimeout h' = GetReadTimeout h
     \<and> GetDefaultNamespace h' = GetDefaultNamespace h
     \<and> GetDefaultProfile h' = GetDefaultProfile h"
  using assms
  by (auto simp: WithTls_def assign_def accessors deref_def nth_list_update fun_eq_iff
      split: option.splits)

lemma WithTls_nil: "WithTls h s None = Inr (h, s)"
  by (simp add: WithTls_def)

text \<open>
  C7. Called on an allocated configuration, each of \<open>WithUseTls\<close>,
  \<open>WithDefaultNamespace\<close>, \<open>WithDefaultProfile\<close> and \<open>WithTls\<close> (with options that
  are not nil) returns the pointer it was called on; afterwards the accessor of its own
  field gives the new value, the accessors of the five other fields give what they gave
  before, and every other configuration in the store is as it was. \<open>WithTls\<close> with nil
  options changes nothing at all: the store and the pointer come back as they were, so
  options set earlier stay.
\<close>

theorem setters_frame:
  assumes "a < length h"
  shows "(\<exists>h'. WithUseTls h (Some a) b = Inr (h', Some a)
           \<and> length h' = length h
           \<and> GetUseTls h' (Some a) = Inr b
           \<and> (\<forall>q. q \<noteq> Some a \<longrightarrow> deref h' q = deref h q)
           \<and> GetEndpoint h' = GetEndpoint h
           \<and> GetReadTimeout h' = GetReadTimeout h
           \<and> GetDefaultNamespace h' = GetDefaultNamespace h
           \<and> GetDefaultProfile h' = GetDefaultProfile h
           \<and> GetTls h' = GetTls h)
       \<and> (\<exists>h'. WithDefaultNamespace h (Some a) ns = Inr (h', Some a)
           \<and> length h' = length h
           \<and> GetDefaultNamespace h' (Some a) = Inr ns
           \<and> (\<forall>q. q \<noteq> Some a \<longrightarrow> deref h' q = deref h q)
           \<and> GetEndpoint h' = GetEndpoint h
           \<and> GetUseTls h' = GetUseTls h
           \<and> GetReadTimeout h' = GetReadTimeout h
           \<and> GetDefaultProfile h' = GetDefaultProfile h
           \<and> GetTls h' = GetTls h)
       \<and> (\<exists>h'. WithDefaultProfile h (Some a) pr = Inr (h', Some a)
           \<and> length h' = length h
           \<and> GetDefaultProfile h' (Some a) = Inr pr
           \<and> (\<forall>q. q \<noteq> Some a \<longrightarrow> deref h' q = deref h q)
           \<and> GetEndpoint h' = GetEndpoint h
           \<and> GetUseTls h' = GetUseTls h
           \<and> GetReadTimeout h' = GetReadTimeout h
           \<and> GetDefaultNamespace h' = GetDefaultNamespace h
           \<and> GetTls h' = GetTls h)
       \<and> (\<exists>h'. WithTls h (Some a) (Some t) = Inr (h', Some a)
           \<and> length h' = length h
           \<and> GetTls h' (Some a) = Inr (Some t)
           \<and> (\<forall>q. q \<noteq> Some a \<longrightarrow> deref h' q = deref h q)
           \<and> GetEndpoint h' = GetEndpoint h
           \<and> GetUseTls h' = GetUseTls h
           \<and> GetReadTimeout h' = GetReadTimeout h
           \<and> GetDefaultNamespace h' = GetDefaultNamespace h
           \<and> GetDefaultProfile h' = GetDefaultProfile h)
       \<and> WithTls h s None = Inr (h, s)"
  by (intro conjI WithUseTls_frame WithDefaultNamespace_frame WithDefaultProfile_frame
      WithTls_frame WithTls_nil assms)

theorem setters_frame_witness:
  "(0::nat) < length [appConfig]
   \<and> WithUseTls [appConfig] (Some 0) True = Inr ([appConfig\<lparr>useTls := True\<rparr>], Some 0)
   \<and> WithDefaultNamespace [appConfig] (Some 0) ''billing''
        = Inr ([appConfig\<lparr>defaultNamespace := ''billing''\<rparr>], Some 0)
   \<and> WithDefaultProfile [appConfig] (Some 0) ''dev''
        = Inr ([appConfig\<lparr>defaultProfile := ''dev''\<rparr>], Some 0)
   \<and> WithTls [appConfig] (Some 0)
          (Some \<lparr>SkipTlsVerification = True, CaCertPath = '''', ServerNameOverride = ''''\<rparr>)
        = Inr ([appConfig\<lparr>tls := Some \<lparr>SkipTlsVerification = True, CaCertPath = '''',
                                         ServerNameOverride = ''''\<rparr>\<rparr>], Some 0)
   \<and> GetTls [appConfig] = GetTls [appConfig\<lparr>useTls := True\<rparr>]
   \<and> WithTls [appConfig\<lparr>tls := Some \<lparr>SkipTlsVerification = True, CaCertPath = '''',
                                       ServerNameOverride = ''''\<rparr>\<rparr>] (Some 0) None
        = Inr ([appConfig\<lparr>tls := Some \<lparr>SkipTlsVerification = True, CaCertPath = '''',
                                         ServerNameOverride = ''''\<rparr>\<rparr>], Some 0)"
  using setters_frame [of 0 "[appConfig]" True "''billing''" "''dev''"
      "\<lparr>SkipTlsVerification = True, CaCertPath = '''', ServerNameOverride = ''''\<rparr>" "Some 0"]
    setters_frame [where a = 0 and s = "Some 0"
      and h = "[appConfig\<lparr>tls := Some \<lparr>SkipTlsVerification = True, CaCertPath = '''',
                                      ServerNameOverride = ''''\<rparr>\<rparr>]"]
  by (simp add: WithUseTls_def WithDefaultNamespace_def WithDefaultProfile_def WithTls_def
      assign_def)

section \<open>Properties of the client\<close>

subsection \<open>Construction\<close>

text \<open>
  C2. With \<open>useTls\<close> false, \<open>NewStoreClient\<close> dials with the plaintext credential
  \<open>insecure.NewCredentials()\<close>, whatever the TLS options are: the result is the same
  for every value of the field \<open>tls\<close>. With \<open>useTls\<close> true and
  \<open>SkipTlsVerification\<close> true it dials with the TLS credential whose configuration has
  \<open>InsecureSkipVerify\<close> set. With \<open>useTls\<close> true and \<open>SkipTlsVerification\<close> false it
  loads the certificate from \<open>CaCertPath\<close> with \<open>ServerNameOverride\<close>; when that
  fails the process ends through \<open>log.Fatalf\<close>, otherwise it dials with the credential
  loaded.
\<close>

theorem NewStoreClient_transport:
  assumes "deref h cfg = Inr c"
  shows "(\<not> useTls c \<longrightarrow>
            NewStoreClient g h cfg = connect g cfg (endpoint c) insecure_NewCredentials
            \<and> (\<forall>a t'. cfg = Some a \<longrightarrow>
                  NewStoreClient g (h[a := c\<lparr>tls := t'\<rparr>]) cfg = NewStoreClient g h cfg))
       \<and> (useTls c \<and> tls c = Some t \<and> SkipTlsVerification t \<longrightarrow>
            NewStoreClient g h cfg
              = connect g cfg (endpoint c) (credentials_NewTLS \<lparr>InsecureSkipVerify = True\<rparr>))
       \<and> (useTls c \<and> tls c = Some t \<and> \<not> SkipTlsVerification t \<longrightarrow>
            NewStoreClient g h cfg
              = (case NewClientTLSFromFile g (CaCertPath t) (ServerNameOverride t) of
                   Inl err \<Rightarrow> Inl (log_Fatalf ''Failed to read CA cert: %v'' err)
                 | Inr creds \<Rightarrow> connect g cfg (endpoint c) (ClientTLSFromFile creds)))"
  using assms
  by (auto simp: NewStoreClient_def GetUseTls_def GetTls_def GetEndpoint_def deref_def
      split: sum.splits option.splits if_splits)

theorem NewStoreClient_transport_witness:
  "deref [appConfig\<lparr>tls := Some \<lparr>SkipTlsVerification = False, CaCertPath = ''/missing.pem'',
                                   ServerNameOverride = ''''\<rparr>\<rparr>] (Some 0)
     = Inr (appConfig\<lparr>tls := Some \<lparr>SkipTlsVerification = False, CaCertPath = ''/missing.pem'',
                                    ServerNameOverride = ''''\<rparr>\<rparr>)
   \<and> NewStoreClient fakeGrpc
         [appConfig\<lparr>tls := Some \<lparr>SkipTlsVerification = False, CaCertPath = ''/missing.pem'',
                                  ServerNameOverride = ''''\<rparr>\<rparr>] (Some 0)
       = connect fakeGrpc (Some 0) ''localhost:50051'' insecure_NewCredentials
   \<and> NewStoreClient fakeGrpc
         [appConfig\<lparr>useTls := True,
                     tls := Some \<lparr>SkipTlsVerification = True, CaCertPath = ''/missing.pem'',
                                  ServerNameOverride = ''''\<rparr>\<rparr>] (Some 0)
       = connect fakeGrpc (Some 0) ''localhost:50051''
           (credentials_NewTLS \<lparr>InsecureSkipVerify = True\<rparr>)
   \<and> NewStoreClient fakeGrpc
         [appConfig\<lparr>useTls := True,
                     tls := Some \<lparr>SkipTlsVerification = False, CaCertPath = ''/missing.pem'',
                                  ServerNameOverride = ''''\<rparr>\<rparr>] (Some 0)
       = Inl (log_Fatalf ''Failed to read CA cert: %v''
                (OtherError ''open: no such file or directory''))
   \<and> NewStoreClient fakeGrpc
         [appConfig\<lparr>useTls := True,
                     tls := Some \<lparr>SkipTlsVerification = False,
                                  CaCertPath = ''/stookv/ca_cert.pem'',
                                  ServerNameOverride = ''stookv.example.com''\<rparr>\<rparr>] (Some 0)
       = connect fakeGrpc (Some 0) ''localhost:50051''
           (ClientTLSFromFile (''/stookv/ca_cert.pem'', ''stookv.example.com''))"
  using
    NewStoreClient_transport [where g = fakeGrpc and cfg = "Some 0"
      and h = "[appConfig\<lparr>tls := Some \<lparr>SkipTlsVerification = False,
                  CaCertPath = ''/missing.pem'', ServerNameOverride = ''''\<rparr>\<rparr>]"
      and c = "appConfig\<lparr>tls := Some \<lparr>SkipTlsVerification = False,
                  CaCertPath = ''/missing.pem'', ServerNameOverride = ''''\<rparr>\<rparr>"]
    NewStoreClient_transport [where g = fakeGrpc and cfg = "Some 0"
      and h = "[appConfig\<lparr>useTls := True, tls := Some \<lparr>SkipTlsVerification = True,
                  CaCertPath = ''/missing.pem'', ServerNameOverride = ''''\<rparr>\<rparr>]"
      and c = "appConfig\<lparr>useTls := True, tls := Some \<lparr>SkipTlsVerification = True,
                  CaCertPath = ''/missing.pem'', ServerNameOverride = ''''\<rparr>\<rparr>"
      and t = "\<lparr>SkipTlsVerification = True, CaCertPath = ''/missing.pem'',
                ServerNameOverride = ''''\<rparr>"]
    NewStoreClient_transport [where g = fakeGrpc and cfg = "Some 0"
      and h = "[appConfig\<lparr>useTls := True, tls := Some \<lparr>SkipTlsVerification = False,
                  CaCertPath = ''/missing.pem'', ServerNameOverride = ''''\<rparr>\<rparr>]"
      and c = "appConfig\<lparr>useTls := True, tls := Some \<lparr>SkipTlsVerification = False,
                  CaCertPath = ''/missing.pem'', ServerNameOverride = ''''\<rparr>\<rparr>"
      and t = "\<lparr>SkipTlsVerification = False, CaCertPath = ''/missing.pem'',
                ServerNameOverride = ''''\<rparr>"]
    NewStoreClient_transport [where g = fakeGrpc and cfg = "Some 0"
      and h = "[appConfig\<lparr>useTls := True, tls := Some \<lparr>SkipTlsVerification = False,
                  CaCertPath = ''/stookv/ca_cert.pem'',
                  ServerNameOverride = ''stookv.example.com''\<rparr>\<rparr>]"
      and c = "appConfig\<lparr>useTls := True, tls := Some \<lparr>SkipTlsVerification = False,
                  CaCertPath = ''/stookv/ca_cert.pem'',
                  ServerNameOverride = ''stookv.example.com''\<rparr>\<rparr>"
      and t = "\<lparr>SkipTlsVerification = False, CaCertPath = ''/stookv/ca_cert.pem'',
                ServerNameOverride = ''stookv.example.com''\<rparr>"]
  by (simp add: deref_def appConfig_def fakeGrpc_def)

text \<open>
  C8. \<open>NewStoreClient\<close> is not total: on a configuration with \<open>useTls\<close> true and the
  field \<open>tls\<close> nil it dereferences the nil pointer that \<open>GetTls\<close> returns. On a
  configuration whose TLS options are present whenever \<open>useTls\<close> is true it does not.
\<close>

theorem NewStoreClient_nil_tls:
  assumes "deref h cfg = Inr c"
  shows "(useTls c \<and> tls c = None \<longrightarrow> NewStoreClient g h cfg = Inl nil_dereference)
       \<and> ((useTls c \<longrightarrow> tls c \<noteq> None) \<longrightarrow> NewStoreClient g h cfg \<noteq> Inl nil_dereference)"
  using assms
  by (auto simp: NewStoreClient_def GetUseTls_def GetTls_def GetEndpoint_def
      split: sum.splits option.splits)

theorem NewStoreClient_nil_tls_witness:
  "deref [appConfig\<lparr>useTls := True\<rparr>] (Some 0) = Inr (appConfig\<lparr>useTls := True\<rparr>)
   \<and> useTls (appConfig\<lparr>useTls := True\<rparr>) \<and> tls (appConfig\<lparr>useTls := True\<rparr>) = None
   \<and> NewStoreClient fakeGrpc [appConfig\<lparr>useTls := True\<rparr>] (Some 0) = Inl nil_dereference
   \<and> deref [appConfig] (Some 0) = Inr appConfig
   \<and> \<not> useTls appConfig
   \<and> NewStoreClient fakeGrpc [appConfig] (Some 0) \<noteq> Inl nil_dereference"
  using
    NewStoreClient_nil_tls [where g = fakeGrpc and cfg = "Some 0"
      and h = "[appConfig\<lparr>useTls := True\<rparr>]" and c = "appConfig\<lparr>useTls := True\<rparr>"]
    NewStoreClient_nil_tls [where g = fakeGrpc and cfg = "Some 0"
      and h = "[appConfig]" and c = appConfig]
  by (simp add: deref_def appConfig_def)

subsection \<open>Default-scope operations\<close>

lemma NewStoreClient_Config: "NewStoreClient g h cfg = Inr c \<Longrightarrow> Config c = cfg"
  by (auto simp: NewStoreClient_def split: sum.splits option.splits if_splits)

text \<open>A scoped operation that returns has made one remote call, the last of the trace.\<close>

lemma scoped_operation_calls:
  "Get h c ns pr key w = Inr (r, w') \<Longrightarrow>
     \<exists>t. GetReadTimeout h (Config c) = Inr t
        \<and> calls w' = calls w @ [GetServiceCall (WithTimeout t) (GetRequest ns pr key)]"
  "Set h c ns pr key val w = Inr (r, w') \<Longrightarrow>
     \<exists>t. GetReadTimeout h (Config c) = Inr t
        \<and> calls w' = calls w @ [SetKeyServiceCall (WithTimeout t) (SetKeyRequest ns pr key val)]"
  "SetSecret h c ns pr key val w = Inr (r, w') \<Longrightarrow>
     \<exists>t. GetReadTimeout h (Config c) = Inr t
        \<and> calls w' = calls w
             @ [SetSecretKeyServiceCall (WithTimeout t) (SetKeyRequest ns pr key val)]"
  "Delete h c ns pr key w = Inr (r, w') \<Longrightarrow>
     \<exists>t. GetReadTimeout h (Config c) = Inr t
        \<and> calls w' = calls w @ [DeleteKeyServiceCall (WithTimeout t) (DeleteKeyRequest ns pr key)]"
  "GetAllByNamespaceAndProfile h c ns pr w = Inr (rm, w') \<Longrightarrow>
     \<exists>t. GetReadTimeout h (Config c) = Inr t
        \<and> calls w' = calls w
             @ [GetServiceByNamespaceAndProfileCall (WithTimeout t)
                  (GetByNamespaceAndProfileRequest ns pr)]"
  by (auto simp: Get_def Set_def SetSecret_def Delete_def GetAllByNamespaceAndProfile_def Let_def
      split: sum.splits option.splits prod.splits)

lemma default_scope_unset:
  assumes "deref h (Config c) = Inr cfg"
    and "defaultNamespace cfg = '''' \<or> defaultProfile cfg = ''''"
  shows "GetDefault h c key w
           = Inr (('''', Some ErrDefaultNamespaceAndProfileMustBeDefined), w)"
    and "SetDefault h c key val w
           = Inr (('''', Some ErrDefaultNamespaceAndProfileMustBeDefined), w)"
    and "SetSecretDefault h c key val w
           = Inr (('''', Some ErrDefaultNamespaceAndProfileMustBeDefined), w)"
    and "DeleteDefault h c key w
           = Inr (('''', Some ErrDefaultNamespaceAndProfileMustBeDefined), w)"
    and "GetAllByDefaultNamespaceAndProfile h c w
           = Inr ((None, Some ErrDefaultNamespaceAndProfileMustBeDefined), w)"
  using assms
  by (auto simp: GetDefault_def SetDefault_def SetSecretDefault_def DeleteDefault_def
      GetAllByDefaultNamespaceAndProfile_def GetDefaultNamespace_def GetDefaultProfile_def
      validateDefaultNamespaceAndProfile_def)

text \<open>
  C1. On a client whose configuration has \<open>defaultNamespace\<close> empty or
  \<open>defaultProfile\<close> empty, each of \<open>GetDefault\<close>, \<open>SetDefault\<close>,
  \<open>SetSecretDefault\<close>, \<open>DeleteDefault\<close> and \<open>GetAllByDefaultNamespaceAndProfile\<close>
  returns the error \<open>ErrDefaultNamespaceAndProfileMustBeDefined\<close> and makes no remote
  call: the trace of calls and the state of the remote service are what they were.
\<close>

theorem default_scope_unset_no_remote_call:
  assumes "deref h (Config c) = Inr cfg"
    and "defaultNamespace cfg = '''' \<or> defaultProfile cfg = ''''"
  shows "(\<exists>v w'. GetDefault h c key w
            = Inr ((v, Some ErrDefaultNamespaceAndProfileMustBeDefined), w')
            \<and> calls w' = calls w \<and> remote w' = remote w)
       \<and> (\<exists>v w'. SetDefault h c key val w
            = Inr ((v, Some ErrDefaultNamespaceAndProfileMustBeDefined), w')
            \<and> calls w' = calls w \<and> remote w' = remote w)
       \<and> (\<exists>v w'. SetSecretDefault h c key val w
            = Inr ((v, Some ErrDefaultNamespaceAndProfileMustBeDefined), w')
            \<and> calls w' = calls w \<and> remote w' = remote w)
       \<and> (\<exists>v w'. DeleteDefault h c key w
            = Inr ((v, Some ErrDefaultNamespaceAndProfileMustBeDefined), w')
            \<and> calls w' = calls w \<and> remote w' = remote w)
       \<and> (\<exists>v w'. GetAllByDefaultNamespaceAndProfile h c w
            = Inr ((v, Some ErrDefaultNamespaceAndProfileMustBeDefined), w')
            \<and> calls w' = calls w \<and> remote w' = remote w)"
  by (simp add: default_scope_unset [OF assms])

theorem default_scope_unset_no_remote_call_witness:
  "deref [appConfig\<lparr>defaultProfile := ''''\<rparr>] (Config \<lparr>Config = Some 0, client = Some fakeKV\<rparr>)
     = Inr (appConfig\<lparr>defaultProfile := ''''\<rparr>)
   \<and> defaultProfile (appConfig\<lparr>defaultProfile := ''''\<rparr>) = ''''
   \<and> (\<exists>v w'. SetDefault [appConfig\<lparr>defaultProfile := ''''\<rparr>]
                 \<lparr>Config = Some 0, client = Some fakeKV\<rparr> ''database.username'' ''root''
                 \<lparr>remote = [], calls = []\<rparr>
               = Inr ((v, Some ErrDefaultNamespaceAndProfileMustBeDefined), w')
             \<and> calls w' = [] \<and> remote w' = [])
   \<and> (\<exists>v w'. GetAllByDefaultNamespaceAndProfile [appConfig\<lparr>defaultProfile := ''''\<rparr>]
                 \<lparr>Config = Some 0, client = Some fakeKV\<rparr> \<lparr>remote = [], calls = []\<rparr>
               = Inr ((v, Some ErrDefaultNamespaceAndProfileMustBeDefined), w')
             \<and> calls w' = [] \<and> remote w' = [])"
  using default_scope_unset_no_remote_call
    [where h = "[appConfig\<lparr>defaultProfile := ''''\<rparr>]"
       and c = "\<lparr>Config = Some 0, client = Some fakeKV\<rparr>"
       and cfg = "appConfig\<lparr>defaultProfile := ''''\<rparr>"
       and key = "''database.username''" and val = "''root''"
       and w = "\<lparr>remote = [], calls = []\<rparr>"]
  by (simp add: deref_def)

text \<open>
  C10. When \<open>defaultNamespace\<close> or \<open>defaultProfile\<close> is empty, \<open>GetDefault\<close>,
  \<open>SetDefault\<close>, \<open>SetSecretDefault\<close> and \<open>DeleteDefault\<close> return the empty string,
  \<open>GetAllByDefaultNamespaceAndProfile\<close> returns the nil map, and the error of all five
  is the one value \<open>ErrDefaultNamespaceAndProfileMustBeDefined\<close>.
\<close>

theorem default_scope_unset_results:
  assumes "deref h (Config c) = Inr cfg"
    and "defaultNamespace cfg = '''' \<or> defaultProfile cfg = ''''"
  shows "map_sum id fst (GetDefault h c key w)
           = Inr ('''', Some ErrDefaultNamespaceAndProfileMustBeDefined)
       \<and> map_sum id fst (SetDefault h c key val w)
           = Inr ('''', Some ErrDefaultNamespaceAndProfileMustBeDefined)
       \<and> map_sum id fst (SetSecretDefault h c key val w)
           = Inr ('''', Some ErrDefaultNamespaceAndProfileMustBeDefined)
       \<and> map_sum id fst (DeleteDefault h c key w)
           = Inr ('''', Some ErrDefaultNamespaceAndProfileMustBeDefined)
       \<and> map_sum id fst (GetAllByDefaultNamespaceAndProfile h c w)
           = Inr (None, Some ErrDefaultNamespaceAndProfileMustBeDefined)"
  by (simp add: default_scope_unset [OF assms])

theorem default_scope_unset_results_witness:
  "deref [appConfig\<lparr>defaultNamespace := ''''\<rparr>]
      (Config \<lparr>Config = Some 0, client = Some fakeKV\<rparr>)
     = Inr (appConfig\<lparr>defaultNamespace := ''''\<rparr>)
   \<and> defaultNamespace (appConfig\<lparr>defaultNamespace := ''''\<rparr>) = ''''
   \<and> map_sum id fst
        (GetDefault [appConfig\<lparr>defaultNamespace := ''''\<rparr>]
           \<lparr>Config = Some 0, client = Some fakeKV\<rparr> ''database.username''
           \<lparr>remote = [((''my-app'', ''prod'', ''database.username''), ''root'')], calls = []\<rparr>)
       = Inr ('''', Some ErrDefaultNamespaceAndProfileMustBeDefined)
   \<and> map_sum id fst
        (GetAllByDefaultNamespaceAndProfile [appConfig\<lparr>defaultNamespace := ''''\<rparr>]
           \<lparr>Config = Some 0, client = Some fakeKV\<rparr>
           \<lparr>remote = [((''my-app'', ''prod'', ''database.username''), ''root'')], calls = []\<rparr>)
       = Inr (None, Some ErrDefaultNamespaceAndProfileMustBeDefined)"
  using default_scope_unset_results
    [where h = "[appConfig\<lparr>defaultNamespace := ''''\<rparr>]"
       and c = "\<lparr>Config = Some 0, client = Some fakeKV\<rparr>"
       and cfg = "appConfig\<lparr>defaultNamespace := ''''\<rparr>"
       and key = "''database.username''"
       and w = "\<lparr>remote = [((''my-app'', ''prod'', ''database.username''), ''root'')],
                 calls = []\<rparr>"]
  by (simp add: deref_def)

text \<open>
  C6. On a client whose configuration has \<open>defaultNamespace\<close> and \<open>defaultProfile\<close>
  both non-empty, each default-scope operation returns what the scoped operation
  returns on the two defaults, and acts on the remote service as it does.
\<close>

theorem default_scope_delegates:
  assumes "deref h (Config c) = Inr cfg"
    and "defaultNamespace cfg \<noteq> ''''" and "defaultProfile cfg \<noteq> ''''"
  shows "GetDefault h c key w = Get h c (defaultNamespace cfg) (defaultProfile cfg) key w
       \<and> SetDefault h c key val w
           = Set h c (defaultNamespace cfg) (defaultProfile cfg) key val w
       \<and> SetSecretDefault h c key val w
           = SetSecret h c (defaultNamespace cfg) (defaultProfile cfg) key val w
       \<and> DeleteDefault h c key w
           = Delete h c (defaultNamespace cfg) (defaultProfile cfg) key w
       \<and> GetAllByDefaultNamespaceAndProfile h c w
           = GetAllByNamespaceAndProfile h c (defaultNamespace cfg) (defaultProfile cfg) w"
  using assms
  by (simp add: GetDefault_def SetDefault_def SetSecretDefault_def DeleteDefault_def
      GetAllByDefaultNamespaceAndProfile_def GetDefaultNamespace_def GetDefaultProfile_def
      validateDefaultNamespaceAndProfile_def)

theorem default_scope_delegates_witness:
  "deref [appConfig] (Config \<lparr>Config = Some 0, client = Some fakeKV\<rparr>) = Inr appConfig
   \<and> defaultNamespace appConfig \<noteq> '''' \<and> defaultProfile appConfig \<noteq> ''''
   \<and> GetDefault [appConfig] \<lparr>Config = Some 0, client = Some fakeKV\<rparr> ''database.username''
        \<lparr>remote = [((''my-app'', ''prod'', ''database.username''), ''root'')], calls = []\<rparr>
       = Get [appConfig] \<lparr>Config = Some 0, client = Some fakeKV\<rparr> ''my-app'' ''prod''
           ''database.username''
           \<lparr>remote = [((''my-app'', ''prod'', ''database.username''), ''root'')], calls = []\<rparr>
   \<and> GetDefault [appConfig] \<lparr>Config = Some 0, client = Some fakeKV\<rparr> ''database.username''
        \<lparr>remote = [((''my-app'', ''prod'', ''database.username''), ''root'')], calls = []\<rparr>
       = Inr ((''root'', None),
              \<lparr>remote = [((''my-app'', ''prod'', ''database.username''), ''root'')],
               calls = [GetServiceCall (WithTimeout (20 * Second))
                          (GetRequest ''my-app'' ''prod'' ''database.username'')]\<rparr>)"
  using default_scope_delegates
    [where h = "[appConfig]" and c = "\<lparr>Config = Some 0, client = Some fakeKV\<rparr>"
       and cfg = appConfig and key = "''database.username''"
       and w = "\<lparr>remote = [((''my-app'', ''prod'', ''database.username''), ''root'')],
                 calls = []\<rparr>"]
  by (simp add: deref_def appConfig_def Get_def GetReadTimeout_def fakeKV_def)

text \<open>
  C9. \<open>NewDefaultStooConfig\<close> returns a configuration with endpoint
  \<open>localhost:50051\<close>, a timeout of ten seconds, \<open>useTls\<close> false, both defaults empty
  and no TLS options. Hence on every client that \<open>NewStoreClient\<close> builds from it,
  each default-scope operation returns the scope error.
\<close>

theorem NewDefaultStooConfig_fields:
  "\<exists>h' p. NewDefaultStooConfig h = (h', p)
     \<and> GetEndpoint h' p = Inr ''localhost:50051''
     \<and> GetReadTimeout h' p = Inr (10 * Second)
     \<and> GetUseTls h' p = Inr False
     \<and> GetDefaultNamespace h' p = Inr ''''
     \<and> GetDefaultProfile h' p = Inr ''''
     \<and> GetTls h' p = Inr None
     \<and> (\<forall>c. NewStoreClient g h' p = Inr c \<longrightarrow>
           (\<forall>key val w.
              GetDefault h' c key w
                = Inr (('''', Some ErrDefaultNamespaceAndProfileMustBeDefined), w)
            \<and> SetDefault h' c key val w
                = Inr (('''', Some ErrDefaultNamespaceAndProfileMustBeDefined), w)
            \<and> SetSecretDefault h' c key val w
                = Inr (('''', Some ErrDefaultNamespaceAndProfileMustBeDefined), w)
            \<and> DeleteDefault h' c key w
                = Inr (('''', Some ErrDefaultNamespaceAndProfileMustBeDefined), w)
            \<and> GetAllByDefaultNamespaceAndProfile h' c w
                = Inr ((None, Some ErrDefaultNamespaceAndProfileMustBeDefined), w)))"
proof -
  let ?d = "\<lparr>endpoint = ''localhost:50051'', useTls = False, readTimeout = 10 * Second,
             defaultNamespace = '''', defaultProfile = '''', tls = None\<rparr>"
  let ?h = "h @ [?d]" and ?p = "Some (length h)"
  have new: "NewDefaultStooConfig h = (?h, ?p)"
    by (simp add: NewDefaultStooConfig_def alloc_def)
  have d: "deref ?h ?p = Inr ?d"
    by (simp add: deref_def)
  have fields: "GetEndpoint ?h ?p = Inr ''localhost:50051''"
    "GetReadTimeout ?h ?p = Inr (10 * Second)" "GetUseTls ?h ?p = Inr False"
    "GetDefaultNamespace ?h ?p = Inr ''''" "GetDefaultProfile ?h ?p = Inr ''''"
    "GetTls ?h ?p = Inr None"
    by (simp_all add: accessors d)
  have scope: "GetDefault ?h c key w
                = Inr (('''', Some ErrDefaultNamespaceAndProfileMustBeDefined), w)
            \<and> SetDefault ?h c key val w
                = Inr (('''', Some ErrDefaultNamespaceAndProfileMustBeDefined), w)
            \<and> SetSecretDefault ?h c key val w
                = Inr (('''', Some ErrDefaultNamespaceAndProfileMustBeDefined), w)
            \<and> DeleteDefault ?h c key w
                = Inr (('''', Some ErrDefaultNamespaceAndProfileMustBeDefined), w)
            \<and> GetAllByDefaultNamespaceAndProfile ?h c w
                = Inr ((None, Some ErrDefaultNamespaceAndProfileMustBeDefined), w)"
    if "NewStoreClient g ?h ?p = Inr c" for c :: "('a, 'b, 'c) StooClient" and key val
      and w :: "'a world"
  proof -
    from that have "Config c = ?p"
      by (rule NewStoreClient_Config)
    with d have "deref ?h (Config c) = Inr ?d"
      by simp
    then show ?thesis
      by (simp add: default_scope_unset)
  qed
  from new fields scope show ?thesis
    by blast
qed

theorem NewDefaultStooConfig_fields_witness:
  "NewDefaultStooConfig []
     = ([\<lparr>endpoint = ''localhost:50051'', useTls = False, readTimeout = 10 * Second,
           defaultNamespace = '''', defaultProfile = '''', tls = None\<rparr>], Some 0)
   \<and> NewStoreClient fakeGrpc
         [\<lparr>endpoint = ''localhost:50051'', useTls = False, readTimeout = 10 * Second,
           defaultNamespace = '''', defaultProfile = '''', tls = None\<rparr>] (Some 0)
       = Inr \<lparr>Config = Some 0, client = Some fakeKV\<rparr>
   \<and> GetDefault
         [\<lparr>endpoint = ''localhost:50051'', useTls = False, readTimeout = 10 * Second,
           defaultNamespace = '''', defaultProfile = '''', tls = None\<rparr>]
         \<lparr>Config = Some 0, client = Some fakeKV\<rparr> ''database.username''
         \<lparr>remote = [], calls = []\<rparr>
       = Inr (('''', Some ErrDefaultNamespaceAndProfileMustBeDefined),
              \<lparr>remote = [], calls = []\<rparr>)"
proof -
  have new: "NewDefaultStooConfig []
     = ([\<lparr>endpoint = ''localhost:50051'', useTls = False, readTimeout = 10 * Second,
           defaultNamespace = '''', defaultProfile = '''', tls = None\<rparr>], Some 0)"
    by (simp add: NewDefaultStooConfig_def alloc_def)
  have client: "NewStoreClient fakeGrpc
         [\<lparr>endpoint = ''localhost:50051'', useTls = False, readTimeout = 10 * Second,
           defaultNamespace = '''', defaultProfile = '''', tls = None\<rparr>] (Some 0)
       = Inr \<lparr>Config = Some 0, client = Some fakeKV\<rparr>"
    by (simp add: NewStoreClient_def GetUseTls_def GetEndpoint_def deref_def fakeGrpc_def)
  from NewDefaultStooConfig_fields [of "[]" fakeGrpc] new client show ?thesis
    by auto
qed

end
